theory Spec2Isabelle
  imports Main
begin

section \<open>JavaScript values used by the components\<close>

text \<open>
  The components are written in TypeScript/JavaScript. A value that the source types as
  \<open>string | null | undefined\<close> is a \<open>js_value\<close>. A \<open>string\<close> stands for a JavaScript
  string: one \<open>char\<close> per code unit, so that \<open>length\<close> is the source's \<open>.length\<close>.
\<close>

datatype js_value = Null | Undefined | Str string

text \<open>JavaScript truthiness: \<open>null\<close>, \<open>undefined\<close> and the empty string are falsy.\<close>

fun truthy :: "js_value \<Rightarrow> bool" where
  "truthy Null = False"
| "truthy Undefined = False"
| "truthy (Str s) = (s \<noteq> [])"

text \<open>The operator \<open>a || b\<close>: the left operand when it is truthy, else the right one.\<close>

definition js_or :: "js_value \<Rightarrow> js_value \<Rightarrow> js_value" where
  "js_or a b = (if truthy a then a else b)"

text \<open>\<open>Array.prototype.find\<close>: the first element satisfying the predicate, else \<open>undefined\<close>.\<close>

definition find_js :: "(string \<Rightarrow> bool) \<Rightarrow> string list \<Rightarrow> js_value" where
  "find_js P xs = (case List.find P xs of None \<Rightarrow> Undefined | Some x \<Rightarrow> Str x)"

text \<open>String conversion of a value, as the Web Storage API applies it to what it stores.\<close>

fun to_string :: "js_value \<Rightarrow> string" where
  "to_string Null = ''null''"
| "to_string Undefined = ''undefined''"
| "to_string (Str s) = s"

section \<open>Local storage\<close>

text \<open>
  The enumeration \<open>LOCAL_STORAGE_KEYS\<close> of \<open>lib/local-storage\<close>: the key the modal uses,
  and every other key of the application.
\<close>

datatype LOCAL_STORAGE_KEYS = PREFERRED_TWO_FACTOR_METHOD | OTHER_KEY string

type_synonym local_storage = "LOCAL_STORAGE_KEYS \<rightharpoonup> string"

text \<open>
  Modelled from the spec: \<open>getFromLocalStorage\<close> and \<open>setLocalStorage\<close> of
  \<open>lib/local-storage\<close> are not part of the sources at hand. The spec speaks of a
  "local-storage preference": reading a key gives the stored string or \<open>null\<close>, writing a
  key stores the value's string under that key and touches nothing else.
\<close>

definition getFromLocalStorage :: "local_storage \<Rightarrow> LOCAL_STORAGE_KEYS \<Rightarrow> js_value" where
  "getFromLocalStorage ls k = (case ls k of None \<Rightarrow> Null | Some s \<Rightarrow> Str s)"

definition setLocalStorage :: "LOCAL_STORAGE_KEYS \<Rightarrow> js_value \<Rightarrow> local_storage \<Rightarrow> local_storage" where
  "setLocalStorage k v ls = ls(k \<mapsto> to_string v)"

section \<open>The initially selected method\<close>

text \<open>
  \<open>initialMethod(supportedMethods)\<close>. The argument is \<open>None\<close> when the list is absent
  (\<open>!supportedMethods\<close>); an empty array is truthy and takes the last branch.
\<close>

definition initialMethod :: "local_storage \<Rightarrow> string list option \<Rightarrow> js_value" where
  "initialMethod ls supportedMethods =
     (case supportedMethods of
        None \<Rightarrow> Null
      | Some ms \<Rightarrow>
          if length ms = 1 then Str (hd ms)
          else
            let preferredMethod = getFromLocalStorage ls PREFERRED_TWO_FACTOR_METHOD
            in js_or (find_js (\<lambda>method. Str method = preferredMethod) ms)
                     (find_js (\<lambda>method. method \<noteq> ''recovery_code'') ms))"

section \<open>The authentication prompt and its promise\<close>

text \<open>
  Modelled from the spec: \<open>ERROR\<close> and \<open>createError\<close> of \<open>lib/errors\<close> are not part
  of the sources at hand. The modal rejects with an error made from the kind
  \<open>TWO_FACTOR_AUTH_CANCELED\<close>; an error is known by its kind, and the other kinds of the
  application are told apart by name.
\<close>

datatype ERROR = TWO_FACTOR_AUTH_CANCELED | OTHER_ERROR string

record app_error =
  error_type :: ERROR

definition createError :: "ERROR \<Rightarrow> app_error" where
  "createError t = \<lparr>error_type = t\<rparr>"

text \<open>The object passed to \<open>prompt.resolveAuth\<close>: \<open>{ type, code }\<close>.\<close>

record auth_answer =
  answer_type :: js_value
  answer_code :: string

datatype promise = Pending | Resolved auth_answer | Rejected app_error

text \<open>
  Modelled from the spec: \<open>resolveAuth\<close> and \<open>rejectAuth\<close> belong to the prompt of
  \<open>TwoFactorAuthenticationContext\<close>, which is not part of the sources at hand. The spec
  says that the modal "resolves/rejects a pending authentication promise": a pending promise
  is settled with the value given, and a settled promise stays as it is.
\<close>

definition resolveAuth :: "auth_answer \<Rightarrow> promise \<Rightarrow> promise" where
  "resolveAuth a p = (case p of Pending \<Rightarrow> Resolved a | _ \<Rightarrow> p)"

definition rejectAuth :: "app_error \<Rightarrow> promise \<Rightarrow> promise" where
  "rejectAuth e p = (case p of Pending \<Rightarrow> Rejected e | _ \<Rightarrow> p)"

record prompt =
  isOpen :: bool
  prompt_supportedMethods :: "string list option"
  allowRecovery :: bool
  isRequired :: bool

text \<open>The memoised list: \<open>(prompt?.supportedMethods ?? []).filter(...)\<close>.\<close>

definition supportedMethods :: "prompt \<Rightarrow> string list" where
  "supportedMethods p =
     filter (\<lambda>method. method \<noteq> ''recovery_code'' \<or> allowRecovery p)
       (case prompt_supportedMethods p of None \<Rightarrow> [] | Some ms \<Rightarrow> ms)"

definition cancellable :: "prompt \<Rightarrow> bool" where
  "cancellable p = (\<not> isRequired p)"

section \<open>Base64\<close>

text \<open>
  \<open>Buffer.from(text, 'utf8').toString('base64')\<close>: the standard alphabet with padding,
  three bytes to four characters. The text is given as its UTF-8 bytes.
\<close>

definition base64_alphabet :: string where
  "base64_alphabet = ''ABCDEFGHIJKLMNOPQRSTUVWXYZabcdefghijklmnopqrstuvwxyz0123456789+/''"

definition base64_digit :: "nat \<Rightarrow> char" where
  "base64_digit n = base64_alphabet ! (n mod 64)"

fun base64_bytes :: "nat list \<Rightarrow> string" where
  "base64_bytes [] = []"
| "base64_bytes [a] =
     [base64_digit (a div 4), base64_digit ((a mod 4) * 16), CHR ''='', CHR ''='']"
| "base64_bytes [a, b] =
     [base64_digit (a div 4), base64_digit ((a mod 4) * 16 + b div 16),
      base64_digit ((b mod 16) * 4), CHR ''='']"
| "base64_bytes (a # b # c # rest) =
     [base64_digit (a div 4), base64_digit ((a mod 4) * 16 + b div 16),
      base64_digit ((b mod 16) * 4 + c div 64), base64_digit (c mod 64)]
     @ base64_bytes rest"

definition toBase64 :: "string \<Rightarrow> string" where
  "toBase64 s = base64_bytes (map of_char s)"

section \<open>The state of the modal\<close>

record toast_message =
  variant :: string
  message :: string

text \<open>
  The three \<open>React.useState\<close> cells of \<open>TwoFactorAuthenticationModal\<close>, and the part of
  the environment that its callbacks read and write: the prompt, the promise behind it,
  the local storage and the toasts shown.
\<close>

record modal =
  selectedMethod :: js_value
  twoFactorCode :: string
  confirming :: bool
  the_prompt :: prompt
  authPromise :: promise
  localStorage :: local_storage
  toasts :: "toast_message list"

text \<open>The state setters reachable from the rendered controls.\<close>

definition setSelectedMethod :: "js_value \<Rightarrow> modal \<Rightarrow> modal" where
  "setSelectedMethod m s = s\<lparr>selectedMethod := m\<rparr>"

definition setTwoFactorCode :: "string \<Rightarrow> modal \<Rightarrow> modal" where
  "setTwoFactorCode c s = s\<lparr>twoFactorCode := c\<rparr>"

text \<open>
  The effect on \<open>[supportedMethods]\<close>: with a non-empty list the selection is computed
  anew.
\<close>

definition onSupportedMethods :: "modal \<Rightarrow> modal" where
  "onSupportedMethods s =
     (if length (supportedMethods (the_prompt s)) > 0
      then setSelectedMethod
             (initialMethod (localStorage s) (Some (supportedMethods (the_prompt s)))) s
      else s)"

text \<open>
  \<open>useWebAuthn\<close> is asynchronous. \<open>useWebAuthn_begin\<close> is the part before
  \<open>await simplewebauthn.startAuthentication(...)\<close>; \<open>useWebAuthn_end\<close> is the
  continuation, given what the awaited call produced: the JSON text of the assertion
  (\<open>JSON.stringify(authenticationResponse)\<close>) or the message of the error thrown.
\<close>

datatype webauthn_outcome = Asserted string | Failed string

definition useWebAuthn_begin :: "modal \<Rightarrow> modal" where
  "useWebAuthn_begin s =
     s\<lparr>localStorage := setLocalStorage PREFERRED_TWO_FACTOR_METHOD (Str ''webauthn'') (localStorage s),
       confirming := True,
       twoFactorCode := ''''\<rparr>"

definition useWebAuthn_end :: "webauthn_outcome \<Rightarrow> modal \<Rightarrow> modal" where
  "useWebAuthn_end outcome s =
     (case outcome of
        Asserted json \<Rightarrow>
          (let base64AuthenticationResponse = toBase64 json;
               s1 = s\<lparr>authPromise :=
                        resolveAuth \<lparr>answer_type = Str ''webauthn'',
                                     answer_code = base64AuthenticationResponse\<rparr>
                          (authPromise s)\<rparr>
           in s1\<lparr>confirming := False\<rparr>)
      | Failed msg \<Rightarrow>
          (let s1 = s\<lparr>toasts := toasts s @ [\<lparr>variant = ''error'', message = msg\<rparr>]\<rparr>
           in s1\<lparr>confirming := False\<rparr>))"

definition useWebAuthn :: "webauthn_outcome \<Rightarrow> modal \<Rightarrow> modal" where
  "useWebAuthn outcome s = useWebAuthn_end outcome (useWebAuthn_begin s)"

definition cancel :: "modal \<Rightarrow> modal" where
  "cancel s =
     s\<lparr>twoFactorCode := '''',
       confirming := False,
       selectedMethod := Null,
       authPromise := rejectAuth (createError TWO_FACTOR_AUTH_CANCELED) (authPromise s)\<rparr>"

text \<open>
  \<open>confirm\<close> reads \<open>twoFactorCode\<close> and \<open>selectedMethod\<close> from its closure: the values
  of the render, whatever the setters called before have queued.
\<close>

definition confirm :: "modal \<Rightarrow> modal" where
  "confirm s =
     (let code = twoFactorCode s;
          s1 = s\<lparr>confirming := True, twoFactorCode := '''', selectedMethod := Null\<rparr>;
          s2 = (if selectedMethod s \<noteq> Str ''recovery_code''
                then s1\<lparr>localStorage :=
                          setLocalStorage PREFERRED_TWO_FACTOR_METHOD (selectedMethod s)
                            (localStorage s1)\<rparr>
                else s1);
          s3 = s2\<lparr>authPromise :=
                    resolveAuth \<lparr>answer_type = selectedMethod s, answer_code = code\<rparr>
                      (authPromise s2)\<rparr>
      in s3\<lparr>confirming := False\<rparr>)"

text \<open>\<open>onOpenChange\<close> of the dialog and the \<open>routeChangeStart\<close> handler both cancel.\<close>

definition onOpenChange :: "bool \<Rightarrow> modal \<Rightarrow> modal" where
  "onOpenChange opn s = (if \<not> opn then cancel s else s)"

definition handleRouteChange :: "modal \<Rightarrow> modal" where
  "handleRouteChange s = cancel s"

definition verifyBtnEnabled :: "modal \<Rightarrow> bool" where
  "verifyBtnEnabled s =
     (length (supportedMethods (the_prompt s)) > 0 \<and>
      ((selectedMethod s = Str ''recovery_code'' \<and> length (twoFactorCode s) > 0) \<or>
       (selectedMethod s = Str ''totp'' \<and> length (twoFactorCode s) = 6) \<or>
       selectedMethod s = Str ''webauthn''))"

definition alternativeMethods :: "modal \<Rightarrow> string list" where
  "alternativeMethods s =
     filter (\<lambda>method. Str method \<noteq> selectedMethod s) (supportedMethods (the_prompt s))"

text \<open>The footer button: \<open>loading\<close>, \<open>disabled\<close> and the handler chosen for \<open>onClick\<close>.\<close>

datatype handler = UseWebAuthn | Confirm

record button =
  loading :: bool
  disabled :: bool
  onClick :: handler

definition verifyButton :: "modal \<Rightarrow> button" where
  "verifyButton s =
     \<lparr>loading = confirming s,
      disabled = (\<not> verifyBtnEnabled s),
      onClick = (if selectedMethod s = Str ''webauthn'' then UseWebAuthn else Confirm)\<rparr>"

text \<open>
  The events of the open dialog, each with the control that raises it and the guard under
  which that control runs a handler.
  \<^item> An alternative method is offered as a link only when the list has more than one method
    and the method is one of \<open>totp\<close>, \<open>webauthn\<close>, \<open>recovery_code\<close> among the
    alternatives.
  \<^item> The code field is there when \<open>recovery_code\<close> or \<open>totp\<close> is selected, and it is
    disabled while confirming.
  \<^item> The footer button is disabled unless \<open>verifyBtnEnabled\<close>; its click runs
    \<open>useWebAuthn\<close> when \<open>webauthn\<close> is selected and \<open>confirm\<close> otherwise.
  \<^item> Enter runs \<open>confirm\<close> in the authenticator field only, which is rendered when
    \<open>totp\<close> is selected and disabled while confirming.
  \<^item> The Cancel button is rendered only when the prompt is cancellable, and it is disabled
    while confirming; it closes the dialog.
  \<^item> Closing the dialog calls \<open>onOpenChange(false)\<close>; a route change calls
    \<open>handleRouteChange\<close>.
  \<^item> The completion of the WebAuthn ceremony is an event of its own, since other events may
    come before it.
  An event whose control is absent or disabled runs no handler.
\<close>

datatype event =
    SelectMethod string
  | TypeCode string
  | ClickVerify
  | PressEnter
  | WebAuthnSettled webauthn_outcome
  | ClickCancel
  | CloseDialog
  | RouteChangeStart

fun handle :: "event \<Rightarrow> modal \<Rightarrow> modal" where
  "handle (SelectMethod m) s =
     (if length (supportedMethods (the_prompt s)) > 1
         \<and> m \<in> {''totp'', ''webauthn'', ''recovery_code''}
         \<and> m \<in> set (alternativeMethods s)
      then setSelectedMethod (Str m) s else s)"
| "handle (TypeCode c) s =
     (if (selectedMethod s = Str ''recovery_code'' \<or> selectedMethod s = Str ''totp'')
         \<and> \<not> confirming s
      then setTwoFactorCode c s else s)"
| "handle ClickVerify s =
     (if disabled (verifyButton s) then s
      else case onClick (verifyButton s) of
             UseWebAuthn \<Rightarrow> useWebAuthn_begin s
           | Confirm \<Rightarrow> confirm s)"
| "handle PressEnter s =
     (if selectedMethod s = Str ''totp'' \<and> \<not> confirming s then confirm s else s)"
| "handle (WebAuthnSettled outcome) s = useWebAuthn_end outcome s"
| "handle ClickCancel s =
     (if cancellable (the_prompt s) \<and> \<not> confirming s then onOpenChange False s else s)"
| "handle CloseDialog s = onOpenChange False s"
| "handle RouteChangeStart s = handleRouteChange s"

section \<open>The update component\<close>

record collective =
  collective_slug :: string
  collective_name :: string

text \<open>
  The fields of an update that the component reads. \<open>html\<close> and \<open>publishedAt\<close> are
  tested for truthiness, so they are kept as JavaScript values.
\<close>

record update =
  update_id :: int
  update_slug :: string
  title :: string
  summary :: string
  html :: js_value
  isPrivate :: bool
  publishedAt :: js_value
  createdAt :: string
  userCanSeeUpdate :: bool
  fromCollective_name :: string

record logged_in_user =
  canEditUpdate :: "update \<Rightarrow> bool"
  canEditCollective :: "collective \<Rightarrow> bool"

text \<open>\<open>LoggedInUser\<close> is \<open>None\<close> when nobody is logged in.\<close>

record props =
  collective :: collective
  update :: update
  compact :: bool
  editable :: bool
  LoggedInUser :: "logged_in_user option"

datatype mode = Summary | Details | Edit

record state =
  modified :: bool
  mode :: mode

definition initial_state :: "props \<Rightarrow> state" where
  "initial_state p = \<lparr>modified = False, mode = (if compact p then Summary else Details)\<rparr>"

definition cancelEdit :: "state \<Rightarrow> state" where
  "cancelEdit st = st\<lparr>modified := False, mode := Details\<rparr>"

definition edit :: "state \<Rightarrow> state" where
  "edit st = st\<lparr>modified := False, mode := Edit\<rparr>"

definition toggleEdit :: "state \<Rightarrow> state" where
  "toggleEdit st = (if mode st = Edit then cancelEdit st else edit st)"

subsection \<open>Mutations and the asynchronous actions\<close>

text \<open>
  The object that \<open>EditUpdateForm\<close> submits: whatever fields it has, and an \<open>id\<close> that
  \<open>save\<close> assigns.
\<close>

record update_input =
  input_id :: "int option"

text \<open>
  A call of \<open>mutate\<close>: \<open>editUpdateQuery\<close> with the variables \<open>{ update }\<close>, or
  \<open>deleteUpdateQuery\<close> with the variables \<open>{ id }\<close>.
\<close>

datatype 'u mutation = EditUpdateMutation 'u | DeleteUpdateMutation int

definition props_editUpdate :: "'u \<Rightarrow> 'u mutation" where
  "props_editUpdate upd = EditUpdateMutation upd"

definition props_deleteUpdate :: "int \<Rightarrow> 'u mutation" where
  "props_deleteUpdate updateID = DeleteUpdateMutation updateID"

text \<open>
  What an action does to the world outside the component, in the order it does it:
  the confirmation dialog, a mutation, \<open>Router.pushRoute(route, params)\<close>, the console.
\<close>

datatype 'u effect =
    WindowConfirm
  | Mutate "'u mutation"
  | PushRoute string "(string \<times> string) list"
  | ConsoleLog string
  | ConsoleError string string

text \<open>The awaited mutation either throws (\<open>Inl\<close>, the error) or returns (\<open>Inr\<close>).\<close>

type_synonym mutation_result = "string + string"

text \<open>
  The run of an action: the component state it leaves, what it did, and the error with which
  its promise rejects, if it does.
\<close>

record 'u run =
  final_state :: state
  effects :: "'u effect list"
  thrown :: "string option"

text \<open>
  \<open>deleteUpdate\<close>, given the user's answer to the confirmation dialog and the result of
  the mutation, should it be sent.
\<close>

definition deleteUpdate :: "props \<Rightarrow> state \<Rightarrow> bool \<Rightarrow> mutation_result \<Rightarrow> 'u run" where
  "deleteUpdate p st answer res =
     (if \<not> answer then \<lparr>final_state = st, effects = [WindowConfirm], thrown = None\<rparr>
      else
        case res of
          Inr r \<Rightarrow>
            \<lparr>final_state = st,
             effects = [WindowConfirm,
                        Mutate (props_deleteUpdate (update_id (update p))),
                        PushRoute ''collective'' [(''slug'', collective_slug (collective p))]],
             thrown = None\<rparr>
        | Inl err \<Rightarrow>
            \<lparr>final_state = st,
             effects = [WindowConfirm,
                        Mutate (props_deleteUpdate (update_id (update p))),
                        ConsoleError ''>>> deleteUpdate error: '' err],
             thrown = None\<rparr>)"

text \<open>
  \<open>save\<close> has no \<open>try\<close>: when the mutation throws, the rest is skipped and the promise of
  \<open>save\<close> rejects.
\<close>

definition save :: "props \<Rightarrow> state \<Rightarrow> 'a update_input_scheme \<Rightarrow> mutation_result \<Rightarrow> 'a update_input_scheme run" where
  "save p st upd res =
     (let upd' = upd\<lparr>input_id := Some (update_id (update p))\<rparr>
      in case res of
           Inr r \<Rightarrow>
             \<lparr>final_state = st\<lparr>modified := False, mode := Details\<rparr>,
              effects = [ConsoleLog ''>>> updating '', Mutate (props_editUpdate upd'),
                         ConsoleLog ''>>> save res''],
              thrown = None\<rparr>
         | Inl err \<Rightarrow>
             \<lparr>final_state = st,
              effects = [ConsoleLog ''>>> updating '', Mutate (props_editUpdate upd')],
              thrown = Some err\<rparr>)"

fun mutations_of :: "'u effect list \<Rightarrow> 'u mutation list" where
  "mutations_of [] = []"
| "mutations_of (Mutate m # es) = m # mutations_of es"
| "mutations_of (e # es) = mutations_of es"

fun is_navigation :: "'u effect \<Rightarrow> bool" where
  "is_navigation (PushRoute r ps) = True"
| "is_navigation e = False"

subsection \<open>Rendering\<close>

text \<open>
  What \<open>render\<close> puts on the page, in document order. Markup that carries no data of the
  update is left out. Dates are kept as given (\<open>formatDate\<close> is applied to them).
\<close>

datatype element =
    Avatar string
  | UpdateTitle string bool
  | SummaryHtml string
  | Lock string
  | ReactTooltip string string
  | PublishedAtBy string
  | CreatedAtDraft string
  | FromCollectiveName string
  | Role string
  | ToggleEditLink string
  | DeleteLink
  | UpdateHtml string
  | UpdateTextWithData int
  | CannotViewMessage string
  | ViewLatestUpdatesLink string
  | PublishUpdateBtnWithData int
  | EditUpdateForm

definition renderUpdateMeta :: "state \<Rightarrow> update \<Rightarrow> bool \<Rightarrow> element list" where
  "renderUpdateMeta st upd editable_arg =
     (if isPrivate upd
      then [Lock ''privateLockText'', ReactTooltip ''privateLockText'' ''This update is private'']
      else [])
     @ [if truthy (publishedAt upd) then PublishedAtBy (to_string (publishedAt upd))
        else CreatedAtDraft (createdAt upd)]
     @ [FromCollectiveName (fromCollective_name upd), Role ''ADMIN'']
     @ (if editable_arg
        then [ToggleEditLink (if mode st = Edit then ''cancelEdit'' else ''edit''), DeleteLink]
        else [])"

text \<open>The title is a link in summary mode only.\<close>

definition renderUpdateTitle :: "props \<Rightarrow> state \<Rightarrow> element list" where
  "renderUpdateTitle p st = [UpdateTitle (title (update p)) (mode st = Summary)]"

text \<open>\<open>renderSummary\<close> calls \<open>renderUpdateMeta(update)\<close>: \<open>editable\<close> is undefined there.\<close>

definition renderSummary :: "state \<Rightarrow> update \<Rightarrow> element list" where
  "renderSummary st upd = [SummaryHtml (summary upd)] @ renderUpdateMeta st upd False"

definition canPublishUpdate :: "props \<Rightarrow> bool" where
  "canPublishUpdate p =
     (case LoggedInUser p of
        None \<Rightarrow> False
      | Some u \<Rightarrow> canEditCollective u (collective p) \<and> \<not> truthy (publishedAt (update p)))"

definition renderFullContent :: "props \<Rightarrow> state \<Rightarrow> element list" where
  "renderFullContent p st =
     (let upd = update p;
          canEdit = (case LoggedInUser p of None \<Rightarrow> False | Some u \<Rightarrow> canEditUpdate u upd);
          editable_arg = (\<not> compact p \<and> editable p \<and> canEdit)
      in renderUpdateMeta st upd editable_arg
         @ (if truthy (html upd) then [UpdateHtml (to_string (html upd))] else [])
         @ (if \<not> truthy (html upd) then [UpdateTextWithData (update_id upd)] else [])
         @ (if \<not> userCanSeeUpdate upd then [CannotViewMessage (collective_name (collective p))] else [])
         @ (if truthy (publishedAt upd)
            then [ViewLatestUpdatesLink (collective_slug (collective p))] else [])
         @ (if canPublishUpdate p then [PublishUpdateBtnWithData (update_id upd)] else []))"

definition renderEditUpdateForm :: "props \<Rightarrow> state \<Rightarrow> element list" where
  "renderEditUpdateForm p st = renderUpdateMeta st (update p) True @ [EditUpdateForm]"

definition render :: "props \<Rightarrow> state \<Rightarrow> element list" where
  "render p st =
     [Avatar (fromCollective_name (update p))]
     @ (if mode st \<noteq> Edit
        then renderUpdateTitle p st
             @ (if mode st = Summary then renderSummary st (update p) else [])
             @ (if mode st = Details then renderFullContent p st else [])
        else [])
     @ (if mode st = Edit then renderEditUpdateForm p st else [])"

section \<open>Sample inputs\<close>

definition example_prompt :: prompt where
  "example_prompt =
     \<lparr>isOpen = True,
      prompt_supportedMethods = Some [''totp'', ''recovery_code'', ''webauthn''],
      allowRecovery = True,
      isRequired = False\<rparr>"

definition example_modal :: modal where
  "example_modal =
     \<lparr>selectedMethod = Str ''totp'',
      twoFactorCode = ''123456'',
      confirming = False,
      the_prompt = example_prompt,
      authPromise = Pending,
      localStorage = [OTHER_KEY ''locale'' \<mapsto> ''en''],
      toasts = []\<rparr>"

definition example_collective :: collective where
  "example_collective = \<lparr>collective_slug = ''webpack'', collective_name = ''Webpack''\<rparr>"

definition example_update :: update where
  "example_update =
     \<lparr>update_id = 42, update_slug = ''hello'', title = ''Hello'', summary = ''Hi'',
      html = Str ''Hi all'', isPrivate = True, publishedAt = Null, createdAt = ''2019-01-01'',
      userCanSeeUpdate = True, fromCollective_name = ''Jane''\<rparr>"

definition example_admin :: logged_in_user where
  "example_admin = \<lparr>canEditUpdate = (\<lambda>u. True), canEditCollective = (\<lambda>c. True)\<rparr>"

text \<open>A compact update of a draft, shown to an administrator of the collective.\<close>

definition example_props :: props where
  "example_props =
     \<lparr>collective = example_collective, update = example_update, compact = True,
      editable = True, LoggedInUser = Some example_admin\<rparr>"

section \<open>Settling the authentication promise\<close>











section \<open>The initially selected method\<close>






section \<open>The Verify button\<close>

text \<open>
  C4. In every state of the modal the Verify button is enabled exactly when the list of
  supported methods is not empty and one of these holds: the selected method is
  \<open>recovery_code\<close> and the code is not empty; the selected method is \<open>totp\<close> and the
  code has length 6; the selected method is \<open>webauthn\<close>. The button is rendered disabled
  exactly when it is not enabled.
\<close>

theorem verify_button_enabled:
  "verifyBtnEnabled s =
     (supportedMethods (the_prompt s) \<noteq> [] \<and>
      (selectedMethod s = Str ''recovery_code'' \<and> twoFactorCode s \<noteq> ''''
       \<or> selectedMethod s = Str ''totp'' \<and> length (twoFactorCode s) = 6
       \<or> selectedMethod s = Str ''webauthn''))
   \<and> disabled (verifyButton s) = (\<not> verifyBtnEnabled s)"
  by (auto simp: verifyBtnEnabled_def verifyButton_def)

theorem verify_button_enabled_witness:
  "disabled (verifyButton example_modal) = False
   \<and> disabled (verifyButton (example_modal\<lparr>twoFactorCode := ''12345''\<rparr>)) = True
   \<and> disabled (verifyButton
        (example_modal\<lparr>selectedMethod := Str ''recovery_code'', twoFactorCode := ''A''\<rparr>)) = False
   \<and> disabled (verifyButton
        (example_modal\<lparr>selectedMethod := Str ''webauthn'', twoFactorCode := ''''\<rparr>)) = False"
proof -
  have m: "supportedMethods example_prompt = [''totp'', ''recovery_code'', ''webauthn'']"
    by (simp add: supportedMethods_def example_prompt_def)
  from verify_button_enabled [of example_modal]
       verify_button_enabled [of "example_modal\<lparr>twoFactorCode := ''12345''\<rparr>"]
       verify_button_enabled
         [of "example_modal\<lparr>selectedMethod := Str ''recovery_code'', twoFactorCode := ''A''\<rparr>"]
       verify_button_enabled
         [of "example_modal\<lparr>selectedMethod := Str ''webauthn'', twoFactorCode := ''''\<rparr>"]
       m
  show ?thesis
    by (simp add: example_modal_def)
qed

section \<open>What the modal writes to local storage\<close>

lemma confirm_frame:
  "k \<noteq> PREFERRED_TWO_FACTOR_METHOD \<Longrightarrow> localStorage (confirm s) k = localStorage s k"
  by (simp add: confirm_def setLocalStorage_def Let_def)

lemma webauthn_begin_frame:
  "k \<noteq> PREFERRED_TWO_FACTOR_METHOD \<Longrightarrow> localStorage (useWebAuthn_begin s) k = localStorage s k"
  by (simp add: useWebAuthn_begin_def setLocalStorage_def)

lemma webauthn_end_storage: "localStorage (useWebAuthn_end outcome s) = localStorage s"
  by (simp add: useWebAuthn_end_def Let_def split: webauthn_outcome.split)

lemma cancel_storage: "localStorage (cancel s) = localStorage s"
  by (simp add: cancel_def)

text \<open>
  C7. Confirming with \<open>totp\<close> or \<open>webauthn\<close> selected stores that method under
  \<open>PREFERRED_TWO_FACTOR_METHOD\<close>, and using WebAuthn stores \<open>webauthn\<close> there, whatever
  the ceremony gives. Confirming with \<open>recovery_code\<close> selected leaves the local storage as
  it is. No handler of the modal and no event changes any other key; only \<open>confirm\<close> and
  the start of \<open>useWebAuthn\<close>, hence only the footer button and Enter, change the storage
  at all.
\<close>

theorem preferred_method_stored:
  "(selectedMethod s = Str m \<and> m \<in> {''totp'', ''webauthn''} \<longrightarrow>
      localStorage (confirm s) = (localStorage s)(PREFERRED_TWO_FACTOR_METHOD \<mapsto> m))
   \<and> localStorage (useWebAuthn_begin s) =
       (localStorage s)(PREFERRED_TWO_FACTOR_METHOD \<mapsto> ''webauthn'')
   \<and> localStorage (useWebAuthn outcome s) =
       (localStorage s)(PREFERRED_TWO_FACTOR_METHOD \<mapsto> ''webauthn'')
   \<and> (selectedMethod s = Str ''recovery_code'' \<longrightarrow> localStorage (confirm s) = localStorage s)
   \<and> (\<forall>k. k \<noteq> PREFERRED_TWO_FACTOR_METHOD \<longrightarrow>
          localStorage (confirm s) k = localStorage s k
          \<and> localStorage (useWebAuthn_begin s) k = localStorage s k)
   \<and> localStorage (useWebAuthn_end outcome s) = localStorage s
   \<and> localStorage (cancel s) = localStorage s
   \<and> localStorage (onOpenChange opn s) = localStorage s
   \<and> localStorage (handleRouteChange s) = localStorage s
   \<and> localStorage (setSelectedMethod v s) = localStorage s
   \<and> localStorage (setTwoFactorCode c s) = localStorage s
   \<and> (\<forall>k. k \<noteq> PREFERRED_TWO_FACTOR_METHOD \<longrightarrow> localStorage (handle e s) k = localStorage s k)
   \<and> (e \<notin> {ClickVerify, PressEnter} \<longrightarrow> localStorage (handle e s) = localStorage s)"
proof -
  have h: "\<forall>k. k \<noteq> PREFERRED_TWO_FACTOR_METHOD \<longrightarrow> localStorage (handle e s) k = localStorage s k"
    by (cases e)
       (simp_all add: confirm_frame webauthn_begin_frame webauthn_end_storage cancel_storage
          onOpenChange_def handleRouteChange_def setSelectedMethod_def setTwoFactorCode_def
          split: handler.split)
  have u: "e \<notin> {ClickVerify, PressEnter} \<longrightarrow> localStorage (handle e s) = localStorage s"
    by (cases e)
       (simp_all add: webauthn_end_storage cancel_storage
          onOpenChange_def handleRouteChange_def setSelectedMethod_def setTwoFactorCode_def)
  have c: "selectedMethod s = Str m \<and> m \<in> {''totp'', ''webauthn''} \<longrightarrow>
      localStorage (confirm s) = (localStorage s)(PREFERRED_TWO_FACTOR_METHOD \<mapsto> m)"
    by (auto simp: confirm_def setLocalStorage_def Let_def)
  have r: "selectedMethod s = Str ''recovery_code'' \<longrightarrow> localStorage (confirm s) = localStorage s"
    by (simp add: confirm_def Let_def)
  have w: "localStorage (useWebAuthn_begin s) =
      (localStorage s)(PREFERRED_TWO_FACTOR_METHOD \<mapsto> ''webauthn'')"
    by (simp add: useWebAuthn_begin_def setLocalStorage_def)
  have w2: "localStorage (useWebAuthn outcome s) =
      (localStorage s)(PREFERRED_TWO_FACTOR_METHOD \<mapsto> ''webauthn'')"
    by (simp add: useWebAuthn_def webauthn_end_storage w)
  have f: "\<forall>k. k \<noteq> PREFERRED_TWO_FACTOR_METHOD \<longrightarrow>
          localStorage (confirm s) k = localStorage s k
          \<and> localStorage (useWebAuthn_begin s) k = localStorage s k"
    by (simp add: confirm_frame webauthn_begin_frame)
  have o: "localStorage (onOpenChange opn s) = localStorage s"
      "localStorage (handleRouteChange s) = localStorage s"
      "localStorage (setSelectedMethod v s) = localStorage s"
      "localStorage (setTwoFactorCode c s) = localStorage s"
    by (simp_all add: onOpenChange_def handleRouteChange_def cancel_storage
        setSelectedMethod_def setTwoFactorCode_def)
  from h u c r w w2 f o webauthn_end_storage [of outcome s] cancel_storage [of s]
  show ?thesis
    by blast
qed

theorem preferred_method_stored_witness:
  "localStorage (confirm example_modal) =
     [OTHER_KEY ''locale'' \<mapsto> ''en'', PREFERRED_TWO_FACTOR_METHOD \<mapsto> ''totp'']
   \<and> localStorage (confirm (example_modal\<lparr>selectedMethod := Str ''recovery_code''\<rparr>)) =
     [OTHER_KEY ''locale'' \<mapsto> ''en'']
   \<and> localStorage (handle ClickVerify example_modal) (OTHER_KEY ''locale'') = Some ''en''
   \<and> localStorage (handle CloseDialog example_modal) = [OTHER_KEY ''locale'' \<mapsto> ''en'']"
proof -
  have s: "selectedMethod example_modal = Str ''totp''"
      "localStorage example_modal = [OTHER_KEY ''locale'' \<mapsto> ''en'']"
    by (simp_all add: example_modal_def)
  from preferred_method_stored
         [of example_modal "''totp''" "Failed ''x''" True Null "''''" ClickVerify]
       preferred_method_stored
         [of "example_modal\<lparr>selectedMethod := Str ''recovery_code''\<rparr>" "''totp''" "Failed ''x''"
             True Null "''''" CloseDialog]
       preferred_method_stored
         [of example_modal "''totp''" "Failed ''x''" True Null "''''" CloseDialog]
       s
  show ?thesis
    by simp
qed

section \<open>The actions of the update component\<close>

text \<open>
  C5, as the claim states it, fails where the guard of \<open>deleteUpdate\<close> stops the action
  and where the mutation of \<open>save\<close> throws. The user declines the dialog: no mutation is
  sent and there is no navigation. The mutation of \<open>save\<close> throws: the component stays in
  edit mode with \<open>modified\<close> as it was.
\<close>

theorem actions_stop_early:
  "effects (deleteUpdate example_props \<lparr>modified = False, mode = Details\<rparr> False (Inr ''ok'')
             :: update_input run) = [WindowConfirm]
   \<and> mutations_of (effects (deleteUpdate example_props \<lparr>modified = False, mode = Details\<rparr> False
                              (Inr ''ok'') :: update_input run)) = []
   \<and> final_state (save example_props \<lparr>modified = True, mode = Edit\<rparr> \<lparr>input_id = None\<rparr>
                    (Inl ''boom'')) = \<lparr>modified = True, mode = Edit\<rparr>
   \<and> final_state (save example_props \<lparr>modified = True, mode = Edit\<rparr> \<lparr>input_id = None\<rparr>
                    (Inl ''boom'')) \<noteq> \<lparr>modified = False, mode = Details\<rparr>"
  by (simp add: deleteUpdate_def save_def Let_def)

text \<open>
  C5, amended. \<open>save\<close> sends exactly one mutation, \<open>editUpdate\<close>, with the edited update
  whose \<open>id\<close> is set to the id of the existing update and whose other fields are as edited;
  when the mutation returns, the component is in \<open>details\<close> mode with \<open>modified\<close> false.
  \<open>deleteUpdate\<close>, when the user accepts the dialog, sends exactly one mutation,
  \<open>deleteUpdate\<close>, with the id of the update; when that mutation returns, it goes on to the
  route \<open>collective\<close> with the slug of the collective.
\<close>

theorem actions_bound_to_mutations:
  "mutations_of (effects (save p st (upd :: 'a update_input_scheme) res)) =
     [EditUpdateMutation (upd\<lparr>input_id := Some (update_id (update p))\<rparr>)]
   \<and> (res = Inr r \<longrightarrow>
        final_state (save p st upd res) = st\<lparr>modified := False, mode := Details\<rparr>)
   \<and> (answer \<longrightarrow>
        mutations_of (effects (deleteUpdate p st answer res :: 'a update_input_scheme run)) =
          [DeleteUpdateMutation (update_id (update p))])
   \<and> (answer \<and> res = Inr r \<longrightarrow>
        effects (deleteUpdate p st answer res :: 'a update_input_scheme run) =
          [WindowConfirm, Mutate (DeleteUpdateMutation (update_id (update p))),
           PushRoute ''collective'' [(''slug'', collective_slug (collective p))]])"
  by (cases res)
     (simp_all add: save_def deleteUpdate_def props_editUpdate_def props_deleteUpdate_def Let_def)

theorem actions_bound_to_mutations_witness:
  "mutations_of (effects (save example_props \<lparr>modified = True, mode = Edit\<rparr>
                            \<lparr>input_id = None\<rparr> (Inr ''ok''))) =
     [EditUpdateMutation \<lparr>input_id = Some 42\<rparr>]
   \<and> final_state (save example_props \<lparr>modified = True, mode = Edit\<rparr> \<lparr>input_id = None\<rparr>
                    (Inr ''ok'')) =
       \<lparr>modified = False, mode = Details\<rparr>
   \<and> effects (deleteUpdate example_props \<lparr>modified = True, mode = Edit\<rparr> True (Inr ''ok'')) =
       [WindowConfirm, Mutate (DeleteUpdateMutation 42 :: update_input mutation),
        PushRoute ''collective'' [(''slug'', ''webpack'')]]"
proof -
  have i: "update_id (update example_props) = 42"
      "collective_slug (collective example_props) = ''webpack''"
    by (simp_all add: example_props_def example_update_def example_collective_def)
  from actions_bound_to_mutations
         [of example_props "\<lparr>modified = True, mode = Edit\<rparr>" "\<lparr>input_id = None\<rparr>" "Inr ''ok''"
             "''ok''" True] i
  show ?thesis
    by simp
qed

text \<open>
  C6. When the user declines the dialog, \<open>deleteUpdate\<close> does nothing more: no mutation,
  no navigation, the component state as before. When the mutation throws, the error is
  written to the console and there is no navigation. A navigation happens only when the
  user has accepted and the mutation has returned, after the mutation, and it goes to the
  page of the collective. The component state is never changed.
\<close>

theorem delete_guarded:
  "(deleteUpdate p st False res :: 'a update_input_scheme run) =
     \<lparr>final_state = st, effects = [WindowConfirm], thrown = None\<rparr>
   \<and> (deleteUpdate p st True (Inl err) :: 'a update_input_scheme run) =
       \<lparr>final_state = st,
        effects = [WindowConfirm, Mutate (DeleteUpdateMutation (update_id (update p))),
                   ConsoleError ''>>> deleteUpdate error: '' err],
        thrown = None\<rparr>
   \<and> ((\<exists>e \<in> set (effects (deleteUpdate p st answer res :: 'a update_input_scheme run)).
          is_navigation e) \<longrightarrow>
        answer \<and> (\<exists>r. res = Inr r) \<and>
        effects (deleteUpdate p st answer res :: 'a update_input_scheme run) =
          [WindowConfirm, Mutate (DeleteUpdateMutation (update_id (update p))),
           PushRoute ''collective'' [(''slug'', collective_slug (collective p))]])
   \<and> final_state (deleteUpdate p st answer res :: 'a update_input_scheme run) = st"
  by (cases res) (simp_all add: deleteUpdate_def props_deleteUpdate_def)

theorem delete_guarded_witness:
  "(deleteUpdate example_props \<lparr>modified = False, mode = Details\<rparr> False (Inr ''ok'')
      :: update_input run) =
     \<lparr>final_state = \<lparr>modified = False, mode = Details\<rparr>, effects = [WindowConfirm],
      thrown = None\<rparr>
   \<and> (deleteUpdate example_props \<lparr>modified = False, mode = Details\<rparr> True (Inl ''boom'')
        :: update_input run) =
     \<lparr>final_state = \<lparr>modified = False, mode = Details\<rparr>,
      effects = [WindowConfirm, Mutate (DeleteUpdateMutation 42),
                 ConsoleError ''>>> deleteUpdate error: '' ''boom''],
      thrown = None\<rparr>
   \<and> (\<exists>e \<in> set (effects (deleteUpdate example_props \<lparr>modified = False, mode = Details\<rparr> True
                             (Inr ''ok'') :: update_input run)).
        is_navigation e)
   \<and> effects (deleteUpdate example_props \<lparr>modified = False, mode = Details\<rparr> True (Inr ''ok'')
                :: update_input run) =
       [WindowConfirm, Mutate (DeleteUpdateMutation 42),
        PushRoute ''collective'' [(''slug'', ''webpack'')]]"
proof -
  have i: "update_id (update example_props) = 42"
      "collective_slug (collective example_props) = ''webpack''"
    by (simp_all add: example_props_def example_update_def example_collective_def)
  have n: "\<exists>e \<in> set (effects (deleteUpdate example_props \<lparr>modified = False, mode = Details\<rparr> True
                              (Inr ''ok'') :: update_input run)).
        is_navigation e"
    by (simp add: deleteUpdate_def)
  from delete_guarded
         [where 'a = unit, of example_props "\<lparr>modified = False, mode = Details\<rparr>" "Inr ''ok''"
            "''boom''" True] i n
  show ?thesis
    by simp
qed

section \<open>What the update component renders\<close>

lemma meta_no_publish: "PublishUpdateBtnWithData i \<notin> set (renderUpdateMeta st upd e)"
  by (simp add: renderUpdateMeta_def)

lemma meta_lock:
  "(Lock x \<in> set (renderUpdateMeta st upd e)) = (isPrivate upd \<and> x = ''privateLockText'')"
  by (auto simp: renderUpdateMeta_def)

lemma meta_tooltip:
  "(ReactTooltip x t \<in> set (renderUpdateMeta st upd e)) =
     (isPrivate upd \<and> x = ''privateLockText'' \<and> t = ''This update is private'')"
  by (auto simp: renderUpdateMeta_def)

lemma full_publish:
  "(PublishUpdateBtnWithData i \<in> set (renderFullContent p st)) =
     (i = update_id (update p) \<and> canPublishUpdate p)"
  by (auto simp: renderFullContent_def Let_def meta_no_publish)

lemma canPublishUpdate_iff:
  "canPublishUpdate p =
     ((\<exists>u. LoggedInUser p = Some u \<and> canEditCollective u (collective p))
      \<and> \<not> truthy (publishedAt (update p)))"
  by (simp add: canPublishUpdate_def split: option.split)

text \<open>
  C8, as the claim states it, fails in summary mode. An administrator of the collective is
  logged in and the update is a draft, so both conditions of the claim hold; the component
  is compact, so it starts in summary mode and renders the title, the summary and the
  metadata only. The publish action is not among them.
\<close>

theorem publish_not_in_summary:
  "LoggedInUser example_props = Some example_admin
   \<and> canEditCollective example_admin (collective example_props)
   \<and> \<not> truthy (publishedAt (update example_props))
   \<and> render example_props (initial_state example_props) =
       [Avatar ''Jane'', UpdateTitle ''Hello'' True, SummaryHtml ''Hi'',
        Lock ''privateLockText'', ReactTooltip ''privateLockText'' ''This update is private'',
        CreatedAtDraft ''2019-01-01'', FromCollectiveName ''Jane'', Role ''ADMIN'']
   \<and> PublishUpdateBtnWithData (update_id (update example_props))
       \<notin> set (render example_props (initial_state example_props))"
  by (simp add: example_props_def example_admin_def example_update_def example_collective_def
      initial_state_def render_def renderUpdateTitle_def renderSummary_def renderUpdateMeta_def)

text \<open>
  C8, amended. The publish action is rendered exactly when the component is in details
  mode, a user is logged in who can edit the collective, and the update has no
  \<open>publishedAt\<close> timestamp; it is then the action for this update. In summary and in edit
  mode it is not rendered. Once the update is published it is not rendered in any mode.
\<close>

theorem publish_action_rendered:
  "(PublishUpdateBtnWithData i \<in> set (render p st)) =
     (mode st = Details \<and> i = update_id (update p)
      \<and> (\<exists>u. LoggedInUser p = Some u \<and> canEditCollective u (collective p))
      \<and> \<not> truthy (publishedAt (update p)))
   \<and> (truthy (publishedAt (update p)) \<longrightarrow> PublishUpdateBtnWithData i \<notin> set (render p st))"
  by (cases "mode st")
     (auto simp: render_def renderUpdateTitle_def renderSummary_def renderEditUpdateForm_def
        meta_no_publish full_publish canPublishUpdate_iff)

theorem publish_action_rendered_witness:
  "PublishUpdateBtnWithData 42 \<in> set (render example_props \<lparr>modified = False, mode = Details\<rparr>)
   \<and> PublishUpdateBtnWithData 42 \<notin> set (render example_props \<lparr>modified = False, mode = Summary\<rparr>)
   \<and> PublishUpdateBtnWithData 42
        \<notin> set (render (example_props\<lparr>update := example_update\<lparr>publishedAt := Str ''2019-02-01''\<rparr>\<rparr>)
                 \<lparr>modified = False, mode = Details\<rparr>)"
proof -
  have e: "LoggedInUser example_props = Some example_admin"
      "canEditCollective example_admin (collective example_props)"
      "publishedAt (update example_props) = Null"
      "update_id (update example_props) = 42"
    by (simp_all add: example_props_def example_admin_def example_update_def)
  have t: "truthy (publishedAt (update
             (example_props\<lparr>update := example_update\<lparr>publishedAt := Str ''2019-02-01''\<rparr>\<rparr>)))"
    by simp
  from publish_action_rendered [of 42 example_props "\<lparr>modified = False, mode = Details\<rparr>"]
       publish_action_rendered [of 42 example_props "\<lparr>modified = False, mode = Summary\<rparr>"]
       publish_action_rendered
         [of 42 "example_props\<lparr>update := example_update\<lparr>publishedAt := Str ''2019-02-01''\<rparr>\<rparr>"
             "\<lparr>modified = False, mode = Details\<rparr>"]
       e t
  show ?thesis
    by simp
qed

text \<open>
  C9. The metadata of a private update holds the lock and, bound to it, the tooltip with
  the text "This update is private"; the metadata of an update that is not private holds
  no lock and no tooltip. The same is true of the whole component in every mode, since each
  mode renders the metadata once.
\<close>

theorem private_lock_in_meta:
  "(isPrivate upd \<longrightarrow>
      Lock ''privateLockText'' \<in> set (renderUpdateMeta st upd e)
      \<and> ReactTooltip ''privateLockText'' ''This update is private''
          \<in> set (renderUpdateMeta st upd e))
   \<and> (\<not> isPrivate upd \<longrightarrow>
      Lock x \<notin> set (renderUpdateMeta st upd e)
      \<and> ReactTooltip x t \<notin> set (renderUpdateMeta st upd e))
   \<and> (isPrivate (update p) \<longrightarrow>
      Lock ''privateLockText'' \<in> set (render p st)
      \<and> ReactTooltip ''privateLockText'' ''This update is private'' \<in> set (render p st))
   \<and> (\<not> isPrivate (update p) \<longrightarrow>
      Lock x \<notin> set (render p st) \<and> ReactTooltip x t \<notin> set (render p st))"
proof -
  have r: "(Lock x \<in> set (render p st)) = (isPrivate (update p) \<and> x = ''privateLockText'')" for x
    by (cases "mode st")
       (auto simp: render_def renderUpdateTitle_def renderSummary_def renderEditUpdateForm_def
          renderFullContent_def Let_def meta_lock)
  have q: "(ReactTooltip x t \<in> set (render p st)) =
      (isPrivate (update p) \<and> x = ''privateLockText'' \<and> t = ''This update is private'')" for x t
    by (cases "mode st")
       (auto simp: render_def renderUpdateTitle_def renderSummary_def renderEditUpdateForm_def
          renderFullContent_def Let_def meta_tooltip)
  show ?thesis
    by (simp add: r q meta_lock meta_tooltip)
qed

theorem private_lock_in_meta_witness:
  "ReactTooltip ''privateLockText'' ''This update is private''
     \<in> set (renderUpdateMeta \<lparr>modified = False, mode = Summary\<rparr> example_update False)
   \<and> ReactTooltip ''privateLockText'' ''This update is private''
     \<in> set (render example_props \<lparr>modified = False, mode = Summary\<rparr>)
   \<and> Lock ''privateLockText''
     \<notin> set (renderUpdateMeta \<lparr>modified = False, mode = Summary\<rparr>
              (example_update\<lparr>isPrivate := False\<rparr>) False)
   \<and> Lock ''privateLockText''
     \<notin> set (render (example_props\<lparr>update := example_update\<lparr>isPrivate := False\<rparr>\<rparr>)
              \<lparr>modified = False, mode = Summary\<rparr>)"
proof -
  have e: "isPrivate example_update" "update example_props = example_update"
    by (simp_all add: example_props_def example_update_def)
  from private_lock_in_meta
         [of example_update "\<lparr>modified = False, mode = Summary\<rparr>" False
             "''privateLockText''" "''This update is private''" example_props]
       private_lock_in_meta
         [of "example_update\<lparr>isPrivate := False\<rparr>" "\<lparr>modified = False, mode = Summary\<rparr>" False
             "''privateLockText''" "''This update is private''"
             "example_props\<lparr>update := example_update\<lparr>isPrivate := False\<rparr>\<rparr>"]
       e
  show ?thesis
    by simp
qed

end
